theory Spec2Isabelle
  imports Main "HOL-Library.AList"
begin

section \<open>Values, exceptions and results\<close>

text \<open>
  The module \<open>utils/models.py\<close> is a set of mixins over an object-relational mapper.
  Python values that travel through keyword arguments and request parameters are
  modelled by \<open>pyval\<close>; exceptions are values of \<open>exn\<close>, and a computation that may
  raise returns \<open>exn + 'a\<close> with \<open>Inl\<close> for the raised exception.
\<close>

datatype pyval = PNone | PBool bool | PInt int | PStr string | PRef nat

text \<open>
  \<open>PRef\<close> is a reference to an opaque object (a datetime, a model instance): it is
  true in a condition, is not \<open>None\<close>, and has neither a conversion to \<open>int\<close> nor a
  call operator.
\<close>

text \<open>
  The exception classes the module names or can meet. \<open>DoesNotExist m\<close> is the class
  \<open>m.DoesNotExist\<close> of the model \<open>m\<close>, a subclass of \<open>ObjectDoesNotExist\<close>;
  \<open>ModelMultipleObjectsReturned m\<close> is \<open>m.MultipleObjectsReturned\<close>, a subclass of
  \<open>MultipleObjectsReturned\<close>.
\<close>

datatype exn =
    ObjectDoesNotExist
  | DoesNotExist string
  | MultipleObjectsReturned
  | ModelMultipleObjectsReturned string
  | IntegrityError string
  | TypeError
  | ValueError
  | KeyError
  | AttributeError
  | AssertionError
  | UnboundLocalError string
  | StopIteration
  | RuntimeError
  | OtherException string

type_synonym 'a result = "exn + 'a"

definition then_do :: "'a result \<Rightarrow> ('a \<Rightarrow> 'b result) \<Rightarrow> 'b result" where
  "then_do r f = (case r of Inl e \<Rightarrow> Inl e | Inr x \<Rightarrow> f x)"

text \<open>\<open>except ObjectDoesNotExist\<close> and \<open>except MultipleObjectsReturned\<close> match subclasses.\<close>

fun is_ObjectDoesNotExist :: "exn \<Rightarrow> bool" where
  "is_ObjectDoesNotExist ObjectDoesNotExist = True"
| "is_ObjectDoesNotExist (DoesNotExist m) = True"
| "is_ObjectDoesNotExist _ = False"

fun is_MultipleObjectsReturned :: "exn \<Rightarrow> bool" where
  "is_MultipleObjectsReturned MultipleObjectsReturned = True"
| "is_MultipleObjectsReturned (ModelMultipleObjectsReturned m) = True"
| "is_MultipleObjectsReturned _ = False"

fun is_IntegrityError :: "exn \<Rightarrow> bool" where
  "is_IntegrityError (IntegrityError msg) = True"
| "is_IntegrityError _ = False"

text \<open>Keyword arguments: a dictionary from names to values, in iteration order.\<close>

type_synonym kwargs = "(string \<times> pyval) list"

section \<open>Model instances\<close>

text \<open>
  A model instance as the uniqueness check sees it: its primary key (\<open>None\<close> for
  Python's \<open>None\<close>) and the text \<open>str(self)\<close> returns.
\<close>

record model_instance =
  pk :: "int option"
  str_repr :: string

section \<open>The host: object-relational mapper and string formatting\<close>

text \<open>
  Every method of the module delegates to the host framework's queryset operations.
  They are parameters of the model: \<open>'qs\<close> is the host's queryset type and \<open>'o\<close> its
  model instances. \<open>orm_slice qs a b\<close> is \<open>qs[a:b]\<close> and \<open>orm_model qs\<close> names
  \<open>qs.model\<close>. \<open>orm_submodel c m\<close> says that the model \<open>c\<close> inherits from the model
  \<open>m\<close> through concrete parents, in which case the framework makes \<open>c.DoesNotExist\<close> a
  subclass of \<open>m.DoesNotExist\<close>. Two facts of the language are parameters as well:
  \<open>str_format t k\<close> is \<open>t % k\<close> for a template \<open>t\<close> and a string \<open>k\<close>, and
  \<open>generator_stop\<close> tells what a \<open>StopIteration\<close> raised inside a generator does:
  it ends the generator silently when \<open>False\<close> (Python 2, and 3 before 3.7) and is
  turned into a \<open>RuntimeError\<close> when \<open>True\<close> (3.7 on).
\<close>

record ('qs, 'o) orm =
  orm_get :: "'qs \<Rightarrow> (string \<rightharpoonup> pyval) \<Rightarrow> 'o result"
  orm_filter :: "'qs \<Rightarrow> (string \<rightharpoonup> pyval) \<Rightarrow> 'qs result"
  orm_exclude :: "'qs \<Rightarrow> (string \<rightharpoonup> pyval) \<Rightarrow> 'qs result"
  orm_all :: "'qs \<Rightarrow> 'qs"
  orm_slice :: "'qs \<Rightarrow> int \<Rightarrow> int \<Rightarrow> 'qs result"
  orm_model :: "'qs \<Rightarrow> string"
  orm_submodel :: "string \<Rightarrow> string \<Rightarrow> bool"
  str_format :: "string \<Rightarrow> string \<Rightarrow> string result"
  generator_stop :: bool

section \<open>QuerySetMixin\<close>

text \<open>
  \<^verbatim>\<open>
  def get_or_none(self, **kwargs):
      try:
          return self.get(**kwargs)
      except self.model.DoesNotExist:
          return None
  \<close>
\<close>

text \<open>
  \<open>except m.DoesNotExist\<close> matches an exception whose class is \<open>m.DoesNotExist\<close> or a
  subclass of it, that is the \<open>DoesNotExist\<close> of \<open>m\<close> or of a model that inherits
  from \<open>m\<close>.
\<close>

definition catches_DoesNotExist :: "('qs, 'o) orm \<Rightarrow> string \<Rightarrow> exn \<Rightarrow> bool" where
  "catches_DoesNotExist host m e =
     (case e of DoesNotExist c \<Rightarrow> c = m \<or> orm_submodel host c m | _ \<Rightarrow> False)"

definition get_or_none :: "('qs, 'o) orm \<Rightarrow> 'qs \<Rightarrow> kwargs \<Rightarrow> 'o option result" where
  "get_or_none host self kw =
     (case orm_get host self (map_of kw) of
        Inr found \<Rightarrow> Inr (Some found)
      | Inl e \<Rightarrow> if catches_DoesNotExist host (orm_model host self) e then Inr None else Inl e)"

section \<open>VerifyUniqueMixin\<close>

text \<open>
  The \<open>query\<close> argument is a callable. \<open>Fn0 r\<close> is a callable of no parameters whose
  call has the outcome \<open>r\<close>; \<open>Fn1 f\<close> is a callable of one positional parameter.
  \<open>query()\<close> calls it with no argument, which Python refuses for \<open>Fn1\<close> with a
  \<open>TypeError\<close> before its body runs.
\<close>

datatype query_fn =
    Fn0 "model_instance option result"
  | Fn1 "pyval \<Rightarrow> model_instance option result"

fun call0 :: "query_fn \<Rightarrow> model_instance option result" where
  "call0 (Fn0 r) = r"
| "call0 (Fn1 f) = Inl TypeError"

text \<open>The default argument \<open>lambda x: None\<close>.\<close>

definition default_query :: query_fn where
  "default_query = Fn1 (\<lambda>x. Inr None)"

text \<open>
  \<^verbatim>\<open>
  def x_verify_unique(self, query=lambda x: None):
      try:
          other = query()
      except ObjectDoesNotExist:
          pass
      except MultipleObjectsReturned:
          raise IntegrityError("Invalid state, unique constraint %s" % str(self))
      else:
          if other is not None and self.pk != other.pk:
              raise IntegrityError("Unique constraint violated %s" % str(self))
  \<close>
\<close>

definition x_verify_unique :: "model_instance \<Rightarrow> query_fn \<Rightarrow> unit result" where
  "x_verify_unique self query =
     (case call0 query of
        Inl e \<Rightarrow>
          if is_ObjectDoesNotExist e then Inr ()
          else if is_MultipleObjectsReturned e
            then Inl (IntegrityError (''Invalid state, unique constraint '' @ str_repr self))
          else Inl e
      | Inr other \<Rightarrow>
          (case other of
             None \<Rightarrow> Inr ()
           | Some oth \<Rightarrow>
               if pk self \<noteq> pk oth
               then Inl (IntegrityError (''Unique constraint violated '' @ str_repr self))
               else Inr ()))"

definition x_verify_unique_default :: "model_instance \<Rightarrow> unit result" where
  "x_verify_unique_default self = x_verify_unique self default_query"

section \<open>PolyModel\<close>














section \<open>FilterManager and ExcludeManager\<close>

text \<open>
  \<^verbatim>\<open>
  class FilterManager(Manager):
      def __init__(self, **kwargs):
          super(FilterManager, self).__init__()
          self.kwargs = kwargs
      def get_query_set(self):
          return super(FilterManager, self).get_query_set().filter(**self.kwargs)
  \<close>
  \<open>ExcludeManager\<close> is the same with \<open>exclude\<close>. The parent manager's
  \<open>get_query_set()\<close> is the host's; its value is the parameter \<open>parent_qs\<close>.
\<close>

record manager =
  mgr_kwargs :: kwargs

definition FilterManager_init :: "kwargs \<Rightarrow> manager" where
  "FilterManager_init kw = \<lparr>mgr_kwargs = kw\<rparr>"

definition FilterManager_get_query_set :: "('qs, 'o) orm \<Rightarrow> 'qs \<Rightarrow> manager \<Rightarrow> 'qs result" where
  "FilterManager_get_query_set host parent_qs self =
     orm_filter host parent_qs (map_of (mgr_kwargs self))"

definition ExcludeManager_init :: "kwargs \<Rightarrow> manager" where
  "ExcludeManager_init kw = \<lparr>mgr_kwargs = kw\<rparr>"

definition ExcludeManager_get_query_set :: "('qs, 'o) orm \<Rightarrow> 'qs \<Rightarrow> manager \<Rightarrow> 'qs result" where
  "ExcludeManager_get_query_set host parent_qs self =
     orm_exclude host parent_qs (map_of (mgr_kwargs self))"

section \<open>MapFilterMixin\<close>

text \<open>
  \<open>dict(pairs)\<close> inserts the pairs in order, so a later pair replaces an earlier one
  with the same key.
\<close>

definition dict_put :: "string \<times> pyval \<Rightarrow> (string \<rightharpoonup> pyval) \<Rightarrow> (string \<rightharpoonup> pyval)" where
  "dict_put p m = m(fst p \<mapsto> snd p)"

definition dict_of :: "(string \<times> pyval) list \<Rightarrow> (string \<rightharpoonup> pyval)" where
  "dict_of pairs = fold dict_put pairs Map.empty"

text \<open>
  The generator \<open>((template % key, callback(val)) for key, val in kwargs.items())\<close>,
  as \<open>dict\<close> consumes it: for each item the key is formatted first, then the callback
  runs. An exception raised there leaves the generator and ends the iteration, except
  \<open>StopIteration\<close>: where \<open>gen_stop\<close> is \<open>False\<close> it is taken for the end of the
  generator, so the pairs made so far are all the pairs; where \<open>gen_stop\<close> is \<open>True\<close>
  it becomes a \<open>RuntimeError\<close>.
\<close>

definition map_item ::
  "(string \<Rightarrow> string result) \<Rightarrow> (pyval \<Rightarrow> pyval result) \<Rightarrow> string \<times> pyval
     \<Rightarrow> (string \<times> pyval) result" where
  "map_item fmt callback item =
     then_do (fmt (fst item)) (\<lambda>key'.
     then_do (callback (snd item)) (\<lambda>val'.
     Inr (key', val')))"

fun map_items ::
  "bool \<Rightarrow> (string \<Rightarrow> string result) \<Rightarrow> (pyval \<Rightarrow> pyval result) \<Rightarrow> kwargs \<Rightarrow> kwargs result" where
  "map_items gen_stop fmt callback [] = Inr []"
| "map_items gen_stop fmt callback (item # rest) =
     (case map_item fmt callback item of
        Inl e \<Rightarrow>
          if e = StopIteration then (if gen_stop then Inl RuntimeError else Inr [])
          else Inl e
      | Inr pair \<Rightarrow>
          then_do (map_items gen_stop fmt callback rest) (\<lambda>ps. Inr (pair # ps)))"

text \<open>
  \<^verbatim>\<open>
  def map_filter(self, template='%s', callback=lambda x: x, **kwargs):
      return self.filter(**dict((template % key, callback(val))
              for key, val in kwargs.items()))
  \<close>
\<close>

definition map_filter ::
  "('qs, 'o) orm \<Rightarrow> 'qs \<Rightarrow> string \<Rightarrow> (pyval \<Rightarrow> pyval result) \<Rightarrow> kwargs \<Rightarrow> 'qs result" where
  "map_filter host self template callback kw =
     then_do (map_items (generator_stop host) (str_format host template) callback kw) (\<lambda>pairs.
     orm_filter host self (dict_of pairs))"

text \<open>The defaults \<open>template='%s'\<close> and \<open>callback=lambda x: x\<close>.\<close>

definition default_template :: string where
  "default_template = ''%s''"

definition default_callback :: "pyval \<Rightarrow> pyval result" where
  "default_callback x = Inr x"

text \<open>
  Calling a value of \<open>pyval\<close>: none of them is callable.
\<close>

definition call_value :: "pyval \<Rightarrow> pyval \<Rightarrow> pyval result" where
  "call_value f x = Inl TypeError"

text \<open>
  The call \<open>self.map_filter(t, **kwargs)\<close> with one positional argument. Python binds
  the keywords to the parameters first: a key \<open>template\<close> collides with the positional
  argument (\<open>TypeError\<close>), and a key \<open>callback\<close> becomes the callback instead of a
  filter argument.
\<close>

definition map_filter_call :: "('qs, 'o) orm \<Rightarrow> 'qs \<Rightarrow> string \<Rightarrow> kwargs \<Rightarrow> 'qs result" where
  "map_filter_call host self t kw =
     (if ''template'' \<in> set (map fst kw) then Inl TypeError
      else (case map_of kw ''callback'' of
              None \<Rightarrow> map_filter host self t default_callback kw
            | Some c \<Rightarrow> map_filter host self t (call_value c) (AList.delete ''callback'' kw)))"

section \<open>PaginatorMixin\<close>

text \<open>
  \<^verbatim>\<open>
  def paginate(self, limit=10, offset=0):
      return self.all()[offset:offset + limit]
  \<close>
\<close>

definition paginate :: "('qs, 'o) orm \<Rightarrow> 'qs \<Rightarrow> int \<Rightarrow> int \<Rightarrow> 'qs result" where
  "paginate host self limit offset = orm_slice host (orm_all host self) offset (offset + limit)"

definition default_limit :: int where
  "default_limit = 10"

definition default_offset :: int where
  "default_offset = 0"

text \<open>\<open>paginate(**pagination)\<close>: a parameter that is not passed takes its default.\<close>

definition paginate_kw :: "('qs, 'o) orm \<Rightarrow> 'qs \<Rightarrow> int option \<Rightarrow> int option \<Rightarrow> 'qs result" where
  "paginate_kw host self limit offset =
     paginate host self (case limit of None \<Rightarrow> default_limit | Some l \<Rightarrow> l)
                        (case offset of None \<Rightarrow> default_offset | Some f \<Rightarrow> f)"

section \<open>TimestampMixin\<close>

text \<open>
  \<^verbatim>\<open>
  def before(self, **kwargs):
      return self.map_filter('%s__lt', **kwargs)
  def after(self, **kwargs):
      return self.map_filter('%s__gt', **kwargs)
  def ubefore(self, **kwargs):
      return self.map_filter('%s__lt', **kwargs)
  def uafter(self, **kwargs):
      return self.map_filter('%s__gt', **kwargs)
  \<close>
\<close>

definition before :: "('qs, 'o) orm \<Rightarrow> 'qs \<Rightarrow> kwargs \<Rightarrow> 'qs result" where
  "before host self kw = map_filter_call host self ''%s__lt'' kw"

definition after :: "('qs, 'o) orm \<Rightarrow> 'qs \<Rightarrow> kwargs \<Rightarrow> 'qs result" where
  "after host self kw = map_filter_call host self ''%s__gt'' kw"

definition ubefore :: "('qs, 'o) orm \<Rightarrow> 'qs \<Rightarrow> kwargs \<Rightarrow> 'qs result" where
  "ubefore host self kw = map_filter_call host self ''%s__lt'' kw"

definition uafter :: "('qs, 'o) orm \<Rightarrow> 'qs \<Rightarrow> kwargs \<Rightarrow> 'qs result" where
  "uafter host self kw = map_filter_call host self ''%s__gt'' kw"

section \<open>RequestQuerySet\<close>

text \<open>Truth value of a Python value, as \<open>if x\<close> and \<open>not x\<close> take it.\<close>

fun truthy :: "pyval \<Rightarrow> bool" where
  "truthy PNone = False"
| "truthy (PBool b) = b"
| "truthy (PInt n) = (n \<noteq> 0)"
| "truthy (PStr s) = (s \<noteq> [])"
| "truthy (PRef r) = True"

text \<open>\<open>d.get(key, default)\<close> and \<open>d.pop(key, default)\<close>: the value and the remaining dictionary.\<close>

definition dict_get :: "kwargs \<Rightarrow> string \<Rightarrow> pyval \<Rightarrow> pyval" where
  "dict_get d key dflt = (case map_of d key of None \<Rightarrow> dflt | Some v \<Rightarrow> v)"

definition dict_pop :: "kwargs \<Rightarrow> string \<Rightarrow> pyval \<Rightarrow> pyval \<times> kwargs" where
  "dict_pop d key dflt = (dict_get d key dflt, AList.delete key d)"

text \<open>
  A local variable is \<open>None\<close> until an assignment binds it; reading it unbound raises
  \<open>UnboundLocalError\<close>.
\<close>

definition read_local :: "string \<Rightarrow> pyval option \<Rightarrow> pyval result" where
  "read_local name var = (case var of None \<Rightarrow> Inl (UnboundLocalError name) | Some v \<Rightarrow> Inr v)"

text \<open>
  \<open>int(x)\<close>. A string is stripped of surrounding whitespace and read as an optional
  sign and decimal digits; anything else in it is a \<open>ValueError\<close>.
\<close>

definition is_space :: "char \<Rightarrow> bool" where
  "is_space c \<longleftrightarrow> c \<in> set [CHR '' '', CHR 0x09, CHR 0x0A, CHR 0x0B, CHR 0x0C, CHR 0x0D]"

definition is_digit :: "char \<Rightarrow> bool" where
  "is_digit c \<longleftrightarrow> c \<in> set ''0123456789''"

definition digit_val :: "char \<Rightarrow> int" where
  "digit_val c = int (of_char c) - 48"

definition digits_val :: "string \<Rightarrow> int" where
  "digits_val ds = fold (\<lambda>c acc. 10 * acc + digit_val c) ds 0"

definition strip :: "string \<Rightarrow> string" where
  "strip s = rev (dropWhile is_space (rev (dropWhile is_space s)))"

definition unsigned_int :: "string \<Rightarrow> int result" where
  "unsigned_int ds = (if ds \<noteq> [] \<and> list_all is_digit ds then Inr (digits_val ds) else Inl ValueError)"

definition int_of_str :: "string \<Rightarrow> int result" where
  "int_of_str s =
     (case strip s of
        [] \<Rightarrow> Inl ValueError
      | c # cs \<Rightarrow>
          if c = CHR ''-'' then then_do (unsigned_int cs) (\<lambda>n. Inr (- n))
          else if c = CHR ''+'' then unsigned_int cs
          else unsigned_int (c # cs))"

fun py_int :: "pyval \<Rightarrow> int result" where
  "py_int PNone = Inl TypeError"
| "py_int (PBool b) = Inr (if b then 1 else 0)"
| "py_int (PInt n) = Inr n"
| "py_int (PStr s) = int_of_str s"
| "py_int (PRef r) = Inl TypeError"

text \<open>
  The local variables of \<open>request\<close> after its first \<open>if\<close>. With a request, \<open>before\<close>
  is assigned only when \<open>ubefore\<close> is false and \<open>after\<close> only when \<open>uafter\<close> is false;
  without one, \<open>ubefore\<close> and \<open>uafter\<close> are not assigned at all.
  \<^verbatim>\<open>
  if req:
      offset = req.GET.get('offset', 0)
      limit = req.GET.get('limit', 10)
      ubefore = req.GET.get('ubefore', None)
      if not ubefore:
          before = req.GET.get('before', None)
      uafter = req.GET.get('uafter', None)
      if not uafter:
          after = req.GET.get('after', None)
  else:
      offset = 0
      limit = 10
      before = None
      after = None
  \<close>
  A request is given by its \<open>GET\<close> dictionary; \<open>None\<close> is Python's \<open>None\<close>. A request
  object is true in a condition.
\<close>

record locals =
  l_offset :: "pyval option"
  l_limit :: "pyval option"
  l_ubefore :: "pyval option"
  l_before :: "pyval option"
  l_uafter :: "pyval option"
  l_after :: "pyval option"

definition request_locals :: "kwargs option \<Rightarrow> locals" where
  "request_locals req =
     (case req of
        Some GET \<Rightarrow>
          \<lparr>l_offset = Some (dict_get GET ''offset'' (PInt 0)),
           l_limit = Some (dict_get GET ''limit'' (PInt 10)),
           l_ubefore = Some (dict_get GET ''ubefore'' PNone),
           l_before = (if \<not> truthy (dict_get GET ''ubefore'' PNone)
                       then Some (dict_get GET ''before'' PNone) else None),
           l_uafter = Some (dict_get GET ''uafter'' PNone),
           l_after = (if \<not> truthy (dict_get GET ''uafter'' PNone)
                      then Some (dict_get GET ''after'' PNone) else None)\<rparr>
      | None \<Rightarrow>
          \<lparr>l_offset = Some (PInt 0),
           l_limit = Some (PInt 10),
           l_ubefore = None,
           l_before = Some PNone,
           l_uafter = None,
           l_after = Some PNone\<rparr>)"

text \<open>
  The keyword overrides. Each default is read before \<open>pop\<close> is called.
  \<^verbatim>\<open>
  offset = kwargs.pop('offset', offset)
  limit = kwargs.pop('limit', limit)
  ubefore = kwargs.pop('ubefore', ubefore)
  if not ubefore:
      kwargs.pop('ubefore', before)
  uafter = kwargs.pop('uafter', uafter)
  if not ubefore:
      after = kwargs.pop('after', after)
  \<close>
  The second \<open>pop\<close> of \<open>'ubefore'\<close> finds the key gone, returns its default and the
  value is dropped: \<open>before\<close> keeps its binding and a key \<open>'before'\<close> stays in
  \<open>kwargs\<close>.
\<close>

definition request_overrides :: "locals \<Rightarrow> kwargs \<Rightarrow> (locals \<times> kwargs) result" where
  "request_overrides l kw0 =
     then_do (read_local ''offset'' (l_offset l)) (\<lambda>off0.
     let (offset, kw1) = dict_pop kw0 ''offset'' off0 in
     then_do (read_local ''limit'' (l_limit l)) (\<lambda>lim0.
     let (limit, kw2) = dict_pop kw1 ''limit'' lim0 in
     then_do (read_local ''ubefore'' (l_ubefore l)) (\<lambda>ub0.
     let (ubefore, kw3) = dict_pop kw2 ''ubefore'' ub0 in
     then_do (if \<not> truthy ubefore
              then then_do (read_local ''before'' (l_before l)) (\<lambda>b. Inr (snd (dict_pop kw3 ''ubefore'' b)))
              else Inr kw3) (\<lambda>kw4.
     then_do (read_local ''uafter'' (l_uafter l)) (\<lambda>ua0.
     let (uafter, kw5) = dict_pop kw4 ''uafter'' ua0 in
     then_do (if \<not> truthy ubefore
              then then_do (read_local ''after'' (l_after l)) (\<lambda>a0.
                     let (a, kw6) = dict_pop kw5 ''after'' a0 in Inr (Some a, kw6))
              else Inr (l_after l, kw5)) (\<lambda>(after', kw7).
     Inr (\<lparr>l_offset = Some offset, l_limit = Some limit, l_ubefore = Some ubefore,
            l_before = l_before l, l_uafter = Some uafter, l_after = after'\<rparr>, kw7)))))))"

text \<open>
  \<^verbatim>\<open>
  if ubefore is not None:
      qs = qs.ubefore(timestamp=ubefore)
  elif before is not None:
      qs = qs.before(pk=before)

  if uafter is not None:
      qs = qs.uafter(timestamp=uafter)
  elif after is not None:
      qs = qs.after(pk=after)
  \<close>
\<close>

definition request_timescope :: "('qs, 'o) orm \<Rightarrow> locals \<Rightarrow> 'qs \<Rightarrow> 'qs result" where
  "request_timescope host l qs0 =
     then_do (read_local ''ubefore'' (l_ubefore l)) (\<lambda>ub.
     then_do (if ub \<noteq> PNone then ubefore host qs0 [(''timestamp'', ub)]
              else then_do (read_local ''before'' (l_before l)) (\<lambda>b.
                     if b \<noteq> PNone then before host qs0 [(''pk'', b)] else Inr qs0)) (\<lambda>qs1.
     then_do (read_local ''uafter'' (l_uafter l)) (\<lambda>ua.
     if ua \<noteq> PNone then uafter host qs1 [(''timestamp'', ua)]
     else then_do (read_local ''after'' (l_after l)) (\<lambda>a.
            if a \<noteq> PNone then after host qs1 [(''pk'', a)] else Inr qs1))))"

text \<open>
  \<^verbatim>\<open>
  pagination = {}
  if offset is not None:
      pagination['offset'] = int(offset)
  if limit is not None:
      pagination['limit'] = int(limit)
  return qs.paginate(**pagination)
  \<close>
\<close>

definition int_unless_none :: "pyval \<Rightarrow> int option result" where
  "int_unless_none v = (if v \<noteq> PNone then then_do (py_int v) (\<lambda>n. Inr (Some n)) else Inr None)"

definition request_paginate :: "('qs, 'o) orm \<Rightarrow> locals \<Rightarrow> 'qs \<Rightarrow> 'qs result" where
  "request_paginate host l qs =
     then_do (read_local ''offset'' (l_offset l)) (\<lambda>offset.
     then_do (int_unless_none offset) (\<lambda>p_offset.
     then_do (read_local ''limit'' (l_limit l)) (\<lambda>limit.
     then_do (int_unless_none limit) (\<lambda>p_limit.
     paginate_kw host qs p_limit p_offset))))"

text \<open>\<open>request(self, req=None, **kwargs)\<close>, the three parts around \<open>qs = self.filter(**kwargs)\<close>.\<close>

definition request :: "('qs, 'o) orm \<Rightarrow> 'qs \<Rightarrow> kwargs option \<Rightarrow> kwargs \<Rightarrow> 'qs result" where
  "request host self req kw =
     then_do (request_overrides (request_locals req) kw) (\<lambda>(l, kw').
     then_do (orm_filter host self (map_of kw')) (\<lambda>qs0.
     then_do (request_timescope host l qs0) (\<lambda>qs.
     request_paginate host l qs)))"

section \<open>ExternalManager\<close>






















section \<open>What paginate is said to return\<close>

text \<open>
  At most \<open>limit\<close> elements of the sequence \<open>xs\<close>, starting at position \<open>offset\<close>.
\<close>

definition at_most_from :: "'a list \<Rightarrow> int \<Rightarrow> int \<Rightarrow> 'a list result \<Rightarrow> bool" where
  "at_most_from xs limit offset r =
     (case r of
        Inl e \<Rightarrow> False
      | Inr ys \<Rightarrow> int (length ys) \<le> limit \<and> ys = take (length ys) (drop (nat offset) xs))"

section \<open>What the uniqueness check is said to raise on\<close>

text \<open>
  The conditions in the description of \<open>x_verify_unique\<close>, as predicates on the
  outcome \<open>r\<close> of \<open>query()\<close> and on the outcome of the method.
\<close>

definition raises_IntegrityError :: "'a result \<Rightarrow> bool" where
  "raises_IntegrityError r = (case r of Inl e \<Rightarrow> is_IntegrityError e | Inr x \<Rightarrow> False)"

definition raises_MultipleObjectsReturned :: "'a result \<Rightarrow> bool" where
  "raises_MultipleObjectsReturned r =
     (case r of Inl e \<Rightarrow> is_MultipleObjectsReturned e | Inr x \<Rightarrow> False)"

definition raises_ObjectDoesNotExist :: "'a result \<Rightarrow> bool" where
  "raises_ObjectDoesNotExist r = (case r of Inl e \<Rightarrow> is_ObjectDoesNotExist e | Inr x \<Rightarrow> False)"

definition returns_other_pk :: "model_instance \<Rightarrow> model_instance option result \<Rightarrow> bool" where
  "returns_other_pk self r =
     (case r of Inl e \<Rightarrow> False | Inr None \<Rightarrow> False | Inr (Some oth) \<Rightarrow> pk self \<noteq> pk oth)"

definition returns_same_pk :: "model_instance \<Rightarrow> model_instance option result \<Rightarrow> bool" where
  "returns_same_pk self r =
     (case r of Inl e \<Rightarrow> False | Inr None \<Rightarrow> False | Inr (Some oth) \<Rightarrow> pk self = pk oth)"

section \<open>An in-memory host\<close>

text \<open>
  A small stand-in for the framework, to run the methods on concrete data: a queryset
  is the list of the primary keys of its rows, a filter understands the lookups
  \<open>pk\<close>, \<open>pk__lt\<close> and \<open>pk__gt\<close> on integers, a slice refuses a negative index as
  the framework's querysets do, and \<open>%\<close> is implemented for templates made of plain
  text, \<open>%%\<close> and \<open>%s\<close>.
\<close>

definition queryset_slice :: "'a list \<Rightarrow> int \<Rightarrow> int \<Rightarrow> 'a list result" where
  "queryset_slice xs a b =
     (if a < 0 \<or> b < 0 then Inl AssertionError
      else Inr (take (nat (b - a)) (drop (nat a) xs)))"

fun percent_scan :: "string \<Rightarrow> string \<Rightarrow> bool \<Rightarrow> (string \<times> bool) result" where
  "percent_scan [] arg used = Inr ([], used)"
| "percent_scan [c] arg used = (if c = CHR ''%'' then Inl ValueError else Inr ([c], used))"
| "percent_scan (c # d # rest) arg used =
     (if c \<noteq> CHR ''%''
      then then_do (percent_scan (d # rest) arg used) (\<lambda>(out, u). Inr (c # out, u))
      else if d = CHR ''%''
      then then_do (percent_scan rest arg used) (\<lambda>(out, u). Inr (CHR ''%'' # out, u))
      else if d = CHR ''s''
      then (if used then Inl TypeError
            else then_do (percent_scan rest arg True) (\<lambda>(out, u). Inr (arg @ out, u)))
      else Inl (OtherException ''conversion''))"

definition percent_format :: "string \<Rightarrow> string \<Rightarrow> string result" where
  "percent_format t arg =
     then_do (percent_scan t arg False) (\<lambda>(out, used). if used then Inr out else Inl TypeError)"

definition pk_lookup :: "(string \<rightharpoonup> pyval) \<Rightarrow> string \<Rightarrow> (int \<Rightarrow> bool) \<Rightarrow> bool" where
  "pk_lookup d key test =
     (case d key of None \<Rightarrow> True | Some (PInt n) \<Rightarrow> test n | Some other \<Rightarrow> False)"

definition table_matches :: "(string \<rightharpoonup> pyval) \<Rightarrow> int \<Rightarrow> bool" where
  "table_matches d r \<longleftrightarrow>
     pk_lookup d ''pk'' (\<lambda>n. r = n) \<and> pk_lookup d ''pk__lt'' (\<lambda>n. r < n)
     \<and> pk_lookup d ''pk__gt'' (\<lambda>n. r > n)"

definition table_get :: "int list \<Rightarrow> (string \<rightharpoonup> pyval) \<Rightarrow> int result" where
  "table_get rows d =
     (case filter (table_matches d) rows of
        [] \<Rightarrow> Inl (DoesNotExist ''Entry'')
      | [r] \<Rightarrow> Inr r
      | r # r' # rest \<Rightarrow> Inl (ModelMultipleObjectsReturned ''Entry''))"

definition table_host :: "(int list, int) orm" where
  "table_host =
     \<lparr>orm_get = table_get,
      orm_filter = (\<lambda>rows d. Inr (filter (table_matches d) rows)),
      orm_exclude = (\<lambda>rows d. Inr (filter (\<lambda>r. \<not> table_matches d r) rows)),
      orm_all = (\<lambda>rows. rows),
      orm_slice = queryset_slice,
      orm_model = (\<lambda>rows. ''Entry''),
      orm_submodel = (\<lambda>c m. False),
      str_format = percent_format,
      generator_stop = False\<rparr>"

text \<open>
  The same host with a model \<open>Child\<close> that inherits from \<open>Entry\<close>, where a lookup
  through \<open>Entry\<close> fails with the child's \<open>DoesNotExist\<close>.
\<close>

definition child_host :: "(int list, int) orm" where
  "child_host =
     table_host\<lparr>orm_get := (\<lambda>rows d. Inl (DoesNotExist ''Child'')),
                orm_submodel := (\<lambda>c m. c = ''Child'' \<and> m = ''Entry'')\<rparr>"














section \<open>Results and dictionaries\<close>

lemma then_do_Inr: "then_do (Inr x) f = f x"
  by (simp add: then_do_def)

lemma then_do_Inl: "then_do (Inl e) f = Inl e"
  by (simp add: then_do_def)




section \<open>get_or_none\<close>

text \<open>
  C4. \<open>get_or_none(**kwargs)\<close> returns what \<open>self.get(**kwargs)\<close> returns when the
  lookup succeeds; it returns \<open>None\<close> when \<open>get\<close> raises \<open>self.model.DoesNotExist\<close>,
  which as always with \<open>except\<close> includes an exception of a subclass, the
  \<open>DoesNotExist\<close> of a model that inherits from \<open>self.model\<close>; every other exception
  of \<open>get\<close> leaves the method unchanged, and \<open>MultipleObjectsReturned\<close>, the base
  \<open>ObjectDoesNotExist\<close> and the \<open>DoesNotExist\<close> of an unrelated model are such
  exceptions.
\<close>

theorem get_or_none_cases:
  "(\<forall>found. orm_get host self (map_of kw) = Inr found \<longrightarrow>
       get_or_none host self kw = Inr (Some found))
   \<and> (orm_get host self (map_of kw) = Inl (DoesNotExist (orm_model host self)) \<longrightarrow>
       get_or_none host self kw = Inr None)
   \<and> (\<forall>c. orm_get host self (map_of kw) = Inl (DoesNotExist c)
          \<and> orm_submodel host c (orm_model host self) \<longrightarrow>
       get_or_none host self kw = Inr None)
   \<and> (\<forall>c. orm_get host self (map_of kw) = Inl (DoesNotExist c)
          \<and> c \<noteq> orm_model host self \<and> \<not> orm_submodel host c (orm_model host self) \<longrightarrow>
       get_or_none host self kw = Inl (DoesNotExist c))
   \<and> (\<forall>e. orm_get host self (map_of kw) = Inl e \<and> (\<forall>c. e \<noteq> DoesNotExist c) \<longrightarrow>
       get_or_none host self kw = Inl e)"
  by (auto simp: get_or_none_def catches_DoesNotExist_def split: exn.splits)

lemma table_get_one: "orm_get table_host [1, 2, 2] (map_of [(''pk'', PInt 1)]) = Inr 1"
  by (simp add: table_host_def table_get_def table_matches_def pk_lookup_def)

lemma table_get_none:
  "orm_get table_host [1, 2, 2] (map_of [(''pk'', PInt 3)])
     = Inl (DoesNotExist (orm_model table_host [1, 2, 2]))"
  by (simp add: table_host_def table_get_def table_matches_def pk_lookup_def)

lemma table_get_many:
  "orm_get table_host [1, 2, 2] (map_of [(''pk'', PInt 2)])
     = Inl (ModelMultipleObjectsReturned ''Entry'')"
  by (simp add: table_host_def table_get_def table_matches_def pk_lookup_def)

lemma child_get:
  "orm_get child_host [1, 2, 2] (map_of [(''pk'', PInt 3)]) = Inl (DoesNotExist ''Child'')
   \<and> orm_submodel child_host ''Child'' (orm_model child_host [1, 2, 2])
   \<and> ''Child'' \<noteq> orm_model child_host [1, 2, 2]"
  by (simp add: child_host_def table_host_def)

lemma stranger_get:
  "orm_get (child_host\<lparr>orm_submodel := (\<lambda>c m. False)\<rparr>) [1, 2, 2] (map_of [(''pk'', PInt 3)])
     = Inl (DoesNotExist ''Child'')
   \<and> ''Child'' \<noteq> orm_model (child_host\<lparr>orm_submodel := (\<lambda>c m. False)\<rparr>) [1, 2, 2]
   \<and> \<not> orm_submodel (child_host\<lparr>orm_submodel := (\<lambda>c m. False)\<rparr>) ''Child''
         (orm_model (child_host\<lparr>orm_submodel := (\<lambda>c m. False)\<rparr>) [1, 2, 2])"
  by (simp add: child_host_def table_host_def)

theorem get_or_none_cases_witness:
  "get_or_none table_host [1, 2, 2] [(''pk'', PInt 1)] = Inr (Some 1)
   \<and> get_or_none table_host [1, 2, 2] [(''pk'', PInt 3)] = Inr None
   \<and> get_or_none table_host [1, 2, 2] [(''pk'', PInt 2)]
       = Inl (ModelMultipleObjectsReturned ''Entry'')
   \<and> get_or_none child_host [1, 2, 2] [(''pk'', PInt 3)] = Inr None
   \<and> get_or_none (child_host\<lparr>orm_submodel := (\<lambda>c m. False)\<rparr>) [1, 2, 2] [(''pk'', PInt 3)]
       = Inl (DoesNotExist ''Child'')"
proof -
  have a: "get_or_none table_host [1, 2, 2] [(''pk'', PInt 1)] = Inr (Some 1)"
    using get_or_none_cases [of table_host "[1, 2, 2]" "[(''pk'', PInt 1)]"] table_get_one
    by blast
  have b: "get_or_none table_host [1, 2, 2] [(''pk'', PInt 3)] = Inr None"
    using get_or_none_cases [of table_host "[1, 2, 2]" "[(''pk'', PInt 3)]"] table_get_none
    by blast
  have c: "get_or_none table_host [1, 2, 2] [(''pk'', PInt 2)]
       = Inl (ModelMultipleObjectsReturned ''Entry'')"
    using get_or_none_cases [of table_host "[1, 2, 2]" "[(''pk'', PInt 2)]"] table_get_many
    by simp
  have d: "get_or_none child_host [1, 2, 2] [(''pk'', PInt 3)] = Inr None"
    using get_or_none_cases [of child_host "[1, 2, 2]" "[(''pk'', PInt 3)]"] child_get
    by blast
  have e: "get_or_none (child_host\<lparr>orm_submodel := (\<lambda>c m. False)\<rparr>) [1, 2, 2] [(''pk'', PInt 3)]
       = Inl (DoesNotExist ''Child'')"
    using get_or_none_cases [of "child_host\<lparr>orm_submodel := (\<lambda>c m. False)\<rparr>" "[1, 2, 2]"
        "[(''pk'', PInt 3)]"] stranger_get
    by blast
  from a b c d e show ?thesis by simp
qed

section \<open>x_verify_unique\<close>

text \<open>
  C1, as stated: for a callable of no parameters, the method raises \<open>IntegrityError\<close>
  exactly when \<open>query()\<close> raises \<open>MultipleObjectsReturned\<close> or returns an object whose
  \<open>pk\<close> differs. It fails for a query that itself raises \<open>IntegrityError\<close>: no handler
  matches, the exception leaves the method, and neither condition holds.
\<close>

theorem x_verify_unique_claim_counterexample:
  "\<not> (raises_IntegrityError
         (x_verify_unique \<lparr>pk = Some 1, str_repr = ''entry''\<rparr> (Fn0 (Inl (IntegrityError ''db''))))
       \<longleftrightarrow> (raises_MultipleObjectsReturned (call0 (Fn0 (Inl (IntegrityError ''db''))))
            \<or> returns_other_pk \<lparr>pk = Some 1, str_repr = ''entry''\<rparr>
                 (call0 (Fn0 (Inl (IntegrityError ''db''))))))"
  by (simp add: x_verify_unique_def raises_IntegrityError_def raises_MultipleObjectsReturned_def
      returns_other_pk_def)

text \<open>
  C1, amended. For a callable of no parameters with outcome \<open>r\<close>, the method raises
  \<open>IntegrityError\<close> exactly when \<open>query()\<close> raises \<open>MultipleObjectsReturned\<close>, returns
  an object other than \<open>None\<close> whose \<open>pk\<close> differs from \<open>self.pk\<close>, or itself raises
  \<open>IntegrityError\<close>; it returns normally exactly when \<open>query()\<close> raises
  \<open>ObjectDoesNotExist\<close>, returns \<open>None\<close> or returns an object with the same \<open>pk\<close>;
  every exception of \<open>query()\<close> that is neither \<open>ObjectDoesNotExist\<close> nor
  \<open>MultipleObjectsReturned\<close> leaves the method unchanged.
\<close>

theorem x_verify_unique_amended:
  "(raises_IntegrityError (x_verify_unique self (Fn0 r))
      \<longleftrightarrow> raises_MultipleObjectsReturned r \<or> returns_other_pk self r \<or> raises_IntegrityError r)
   \<and> (x_verify_unique self (Fn0 r) = Inr ()
      \<longleftrightarrow> raises_ObjectDoesNotExist r \<or> r = Inr None \<or> returns_same_pk self r)
   \<and> (\<forall>e. r = Inl e \<and> \<not> is_ObjectDoesNotExist e \<and> \<not> is_MultipleObjectsReturned e
        \<longrightarrow> x_verify_unique self (Fn0 r) = Inl e)"
proof (cases r)
  case (Inl e)
  then show ?thesis
    by (cases e)
       (simp_all add: x_verify_unique_def raises_IntegrityError_def
          raises_MultipleObjectsReturned_def raises_ObjectDoesNotExist_def
          returns_other_pk_def returns_same_pk_def)
next
  case (Inr other)
  then show ?thesis
    by (cases other)
       (simp_all add: x_verify_unique_def raises_IntegrityError_def
          raises_MultipleObjectsReturned_def raises_ObjectDoesNotExist_def
          returns_other_pk_def returns_same_pk_def)
qed

theorem x_verify_unique_amended_witness:
  "x_verify_unique \<lparr>pk = Some 1, str_repr = ''entry''\<rparr> (Fn0 (Inl TypeError)) = Inl TypeError
   \<and> raises_IntegrityError
       (x_verify_unique \<lparr>pk = Some 1, str_repr = ''entry''\<rparr>
          (Fn0 (Inr (Some \<lparr>pk = Some 2, str_repr = ''other''\<rparr>))))
   \<and> x_verify_unique \<lparr>pk = Some 1, str_repr = ''entry''\<rparr> (Fn0 (Inl (DoesNotExist ''Entry'')))
       = Inr ()"
proof -
  have a: "x_verify_unique \<lparr>pk = Some 1, str_repr = ''entry''\<rparr> (Fn0 (Inl TypeError))
       = Inl TypeError"
    using x_verify_unique_amended [of "\<lparr>pk = Some 1, str_repr = ''entry''\<rparr>" "Inl TypeError"]
    by simp
  have b: "raises_IntegrityError
       (x_verify_unique \<lparr>pk = Some 1, str_repr = ''entry''\<rparr>
          (Fn0 (Inr (Some \<lparr>pk = Some 2, str_repr = ''other''\<rparr>))))"
    using x_verify_unique_amended [of "\<lparr>pk = Some 1, str_repr = ''entry''\<rparr>"
        "Inr (Some \<lparr>pk = Some 2, str_repr = ''other''\<rparr>)"]
    by (simp add: returns_other_pk_def)
  have c: "x_verify_unique \<lparr>pk = Some 1, str_repr = ''entry''\<rparr>
       (Fn0 (Inl (DoesNotExist ''Entry''))) = Inr ()"
    using x_verify_unique_amended [of "\<lparr>pk = Some 1, str_repr = ''entry''\<rparr>"
        "Inl (DoesNotExist ''Entry'')"]
    by (simp add: raises_ObjectDoesNotExist_def)
  from a b c show ?thesis by simp
qed

text \<open>
  C10. Called without a \<open>query\<close> argument, \<open>x_verify_unique\<close> raises \<open>TypeError\<close>
  whatever \<open>self\<close> is: the default \<open>lambda x: None\<close> has one parameter and is called
  with none, and \<open>TypeError\<close> matches neither \<open>except\<close> clause.
\<close>

theorem x_verify_unique_default_raises:
  "x_verify_unique_default self = Inl TypeError
   \<and> call0 default_query = Inl TypeError
   \<and> \<not> is_ObjectDoesNotExist TypeError \<and> \<not> is_MultipleObjectsReturned TypeError"
  by (simp add: x_verify_unique_default_def x_verify_unique_def default_query_def)

section \<open>before, after, ubefore, uafter\<close>

text \<open>
  C9. \<open>ubefore\<close> is the same function as \<open>before\<close> and \<open>uafter\<close> the same as \<open>after\<close>:
  for every \<open>kwargs\<close>, the first two are the call \<open>map_filter('%s__lt', **kwargs)\<close> and
  the last two the call \<open>map_filter('%s__gt', **kwargs)\<close>.
\<close>

theorem ubefore_uafter_same:
  "ubefore host self kw = before host self kw
   \<and> before host self kw = map_filter_call host self ''%s__lt'' kw
   \<and> ubefore host self kw = map_filter_call host self ''%s__lt'' kw
   \<and> uafter host self kw = after host self kw
   \<and> after host self kw = map_filter_call host self ''%s__gt'' kw
   \<and> uafter host self kw = map_filter_call host self ''%s__gt'' kw"
  by (simp add: ubefore_def before_def uafter_def after_def)

section \<open>FilterManager and ExcludeManager\<close>

text \<open>
  C7. For the \<open>kwargs\<close> given at construction, \<open>FilterManager(**kwargs).get_query_set()\<close>
  is the parent manager's queryset with \<open>.filter(**kwargs)\<close> applied, and
  \<open>ExcludeManager(**kwargs).get_query_set()\<close> is it with \<open>.exclude(**kwargs)\<close> applied,
  and nothing more.
\<close>

theorem manager_get_query_set:
  "FilterManager_get_query_set host parent_qs (FilterManager_init kw)
     = orm_filter host parent_qs (map_of kw)
   \<and> ExcludeManager_get_query_set host parent_qs (ExcludeManager_init kw)
     = orm_exclude host parent_qs (map_of kw)"
  by (simp add: FilterManager_get_query_set_def FilterManager_init_def
      ExcludeManager_get_query_set_def ExcludeManager_init_def)

section \<open>request\<close>

text \<open>
  C2 says that \<open>request\<close> with \<open>req=None\<close> and no keyword returns the first ten
  elements. The branch for a missing request binds \<open>offset\<close>, \<open>limit\<close>, \<open>before\<close> and
  \<open>after\<close> but neither \<open>ubefore\<close> nor \<open>uafter\<close>, and \<open>kwargs.pop('ubefore', ubefore)\<close>
  reads \<open>ubefore\<close>: without a request the method raises \<open>UnboundLocalError\<close>,
  whatever the keywords and the queryset.
\<close>

theorem request_without_req_raises:
  "request host self None kw = Inl (UnboundLocalError ''ubefore'')"
  by (simp add: request_def request_overrides_def request_locals_def read_local_def
      then_do_def dict_pop_def split: prod.splits)

text \<open>
  With a request, a keyword \<open>before\<close> does not replace the request's \<open>before\<close>: the
  statement that should pop it pops \<open>'ubefore'\<close> again and drops the value, so the
  key stays among the filter arguments.
\<close>

lemma request_overrides_keeps_before:
  "request_overrides (request_locals (Some [(''before'', PInt 5)])) [(''before'', PInt 3)]
     = Inr (\<lparr>l_offset = Some (PInt 0), l_limit = Some (PInt 10), l_ubefore = Some PNone,
             l_before = Some (PInt 5), l_uafter = Some PNone, l_after = Some PNone\<rparr>,
            [(''before'', PInt 3)])"
  by (simp add: request_overrides_def request_locals_def read_local_def then_do_def
      dict_pop_def dict_get_def AList.delete_eq)

section \<open>map_filter\<close>


lemma map_item_raises:
  "fmt k = Inl e \<or> (fmt k = Inr k' \<and> cb v = Inl e) \<Longrightarrow> map_item fmt cb (k, v) = Inl e"
  by (auto simp: map_item_def then_do_def)











section \<open>paginate\<close>

text \<open>
  C6, as stated: \<open>paginate(limit, offset)\<close> returns at most \<open>limit\<close> elements
  starting at position \<open>offset\<close>. On a queryset sliced as the framework slices, with
  \<open>limit = 3\<close> and \<open>offset = -1\<close> nothing is returned, the slice is refused; and with
  \<open>limit = -3\<close> and \<open>offset = 5\<close> the empty slice is returned, which is not at most
  \<open>-3\<close> elements.
\<close>

theorem paginate_claim_counterexample:
  "\<not> at_most_from [1, 2, 3, 4, 5, 6, 7] 3 (- 1) (paginate table_host [1, 2, 3, 4, 5, 6, 7] 3 (- 1))
   \<and> \<not> at_most_from [1, 2, 3, 4, 5, 6, 7] (- 3) 5
         (paginate table_host [1, 2, 3, 4, 5, 6, 7] (- 3) 5)"
  by (simp add: at_most_from_def paginate_def table_host_def queryset_slice_def)

text \<open>
  C6, amended. \<open>paginate(limit, offset)\<close> is the slice
  \<open>self.all()[offset:offset + limit]\<close>, with \<open>limit = 10\<close> and \<open>offset = 0\<close> for a
  parameter that is not passed. Where the queryset is a sequence sliced as the
  framework slices and neither number is negative, that is at most \<open>limit\<close>
  elements starting at position \<open>offset\<close>: the first \<open>limit\<close> of the elements from
  \<open>offset\<close> on, the \<open>i\<close>-th being element \<open>offset + i\<close>. Where \<open>offset\<close> or
  \<open>offset + limit\<close> is negative the slice is refused.
\<close>

lemma take_min_drop: "take (min (length xs - k) n) (drop k xs) = take n (drop k xs)"
  by (simp add: min_def)

theorem paginate_slice:
  "paginate host self limit offset = orm_slice host (orm_all host self) offset (offset + limit)
   \<and> paginate_kw host self None None = paginate host self 10 0
   \<and> paginate_kw host self (Some limit) None = paginate host self limit 0
   \<and> paginate_kw host self None (Some offset) = paginate host self 10 offset
   \<and> paginate_kw host self (Some limit) (Some offset) = paginate host self limit offset
   \<and> (orm_all seq_host = (\<lambda>xs. xs) \<and> orm_slice seq_host = queryset_slice
        \<and> 0 \<le> offset \<and> 0 \<le> limit \<longrightarrow>
      paginate seq_host xs limit offset = Inr (take (nat limit) (drop (nat offset) xs))
      \<and> at_most_from xs limit offset (paginate seq_host xs limit offset)
      \<and> int (length (take (nat limit) (drop (nat offset) xs))) \<le> limit
      \<and> (\<forall>i < length (take (nat limit) (drop (nat offset) xs)).
            take (nat limit) (drop (nat offset) xs) ! i = xs ! (nat offset + i)))
   \<and> (orm_all seq_host = (\<lambda>xs. xs) \<and> orm_slice seq_host = queryset_slice
        \<and> (offset < 0 \<or> offset + limit < 0) \<longrightarrow>
      paginate seq_host xs limit offset = Inl AssertionError)"
  by (auto simp: paginate_def paginate_kw_def default_limit_def default_offset_def
      queryset_slice_def at_most_from_def take_min_drop)

theorem paginate_slice_witness:
  "paginate table_host [1, 2, 3, 4, 5, 6, 7] 3 2 = Inr [3, 4, 5]
   \<and> at_most_from [1, 2, 3, 4, 5, 6, 7] 3 2 (paginate table_host [1, 2, 3, 4, 5, 6, 7] 3 2)
   \<and> paginate table_host [1, 2, 3, 4, 5, 6, 7] 3 (- 1) = Inl AssertionError"
proof -
  have h: "orm_all table_host = (\<lambda>xs. xs) \<and> orm_slice table_host = queryset_slice
        \<and> (0::int) \<le> 2 \<and> (0::int) \<le> 3"
    by (simp add: table_host_def)
  from paginate_slice [of table_host "[1, 2, 3, 4, 5, 6, 7]" 3 2 table_host "[1, 2, 3, 4, 5, 6, 7]"] h
  have a: "paginate table_host [1, 2, 3, 4, 5, 6, 7] 3 2
      = Inr (take (nat 3) (drop (nat 2) [1, 2, 3, 4, 5, 6, 7]))
    \<and> at_most_from [1, 2, 3, 4, 5, 6, 7] 3 2 (paginate table_host [1, 2, 3, 4, 5, 6, 7] 3 2)"
    by blast
  have h': "orm_all table_host = (\<lambda>xs. xs) \<and> orm_slice table_host = queryset_slice
        \<and> ((- 1 :: int) < 0 \<or> (- 1 :: int) + 3 < 0)"
    by (simp add: table_host_def)
  from paginate_slice [of table_host "[1, 2, 3, 4, 5, 6, 7]" 3 "- 1" table_host
      "[1, 2, 3, 4, 5, 6, 7]"] h'
  have b: "paginate table_host [1, 2, 3, 4, 5, 6, 7] 3 (- 1) = Inl AssertionError"
    by blast
  from a b show ?thesis by (simp add: at_most_from_def)
qed

section \<open>proxy\<close>











section \<open>put\<close>





















end
